theory Spec2Isabelle
  imports Main
begin

section \<open>Strings of the Go standard library\<close>

text \<open>
  A Go string is a sequence of bytes, here a \<open>string\<close> (a list of 8-bit characters).
  The functions of package \<open>strings\<close>, \<open>strconv\<close> and \<open>fmt\<close> that the repository calls
  are written out for ASCII input, where Go takes a byte-wise fast path. On a string
  with a byte of 128 or more Go decodes UTF-8 and consults the Unicode tables; those
  tables are taken as a parameter, the three functions of a \<open>Unicode\<close> record, and every
  result below holds for each choice of them.
\<close>

record Unicode =
  mapLower :: "string \<Rightarrow> string"
  mapUpper :: "string \<Rightarrow> string"
  quoteRunes :: "string \<Rightarrow> string"

definition byte :: "char \<Rightarrow> nat" where
  "byte c = of_char c"

definition isASCII :: "string \<Rightarrow> bool" where
  "isASCII s = list_all (\<lambda>c. byte c < 128) s"

definition lowerByte :: "char \<Rightarrow> char" where
  "lowerByte c = (if 65 \<le> byte c \<and> byte c \<le> 90 then char_of (byte c + 32) else c)"

definition upperByte :: "char \<Rightarrow> char" where
  "upperByte c = (if 97 \<le> byte c \<and> byte c \<le> 122 then char_of (byte c - 32) else c)"

definition ToLower :: "Unicode \<Rightarrow> string \<Rightarrow> string" where
  "ToLower U s = (if isASCII s then map lowerByte s else mapLower U s)"

definition ToUpper :: "Unicode \<Rightarrow> string \<Rightarrow> string" where
  "ToUpper U s = (if isASCII s then map upperByte s else mapUpper U s)"

fun Join :: "string list \<Rightarrow> string \<Rightarrow> string" where
  "Join [] sep = []"
| "Join [x] sep = x"
| "Join (x # y # ys) sep = x @ sep @ Join (y # ys) sep"

text \<open>
  \<open>strings.Split(s, sep)\<close> for a separator of one byte, the only kind the repository
  passes: the pieces of \<open>s\<close> between the occurrences of the byte, in order.
\<close>

fun splitFrom :: "string \<Rightarrow> char \<Rightarrow> string \<Rightarrow> string list" where
  "splitFrom acc c [] = [acc]"
| "splitFrom acc c (x # xs) =
     (if x = c then acc # splitFrom [] c xs else splitFrom (acc @ [x]) c xs)"

definition Split :: "string \<Rightarrow> char \<Rightarrow> string list" where
  "Split s c = splitFrom [] c s"

text \<open>
  \<open>strings.IndexAny(s, chars)\<close> for ASCII \<open>chars\<close>: the index of the first byte of \<open>s\<close>
  that occurs in \<open>chars\<close>, or \<open>-1\<close>.
\<close>

fun IndexAny :: "string \<Rightarrow> string \<Rightarrow> int" where
  "IndexAny [] chars = - 1"
| "IndexAny (x # xs) chars =
     (if x \<in> set chars then 0
      else (let i = IndexAny xs chars in if i < 0 then - 1 else i + 1))"

text \<open>
  \<open>strconv.Atoi\<close>: an optional sign, then one or more decimal digits, and a value
  that fits the 64-bit \<open>int\<close>; everything else is an error (\<open>None\<close>).
\<close>

definition isDigit :: "char \<Rightarrow> bool" where
  "isDigit c = (48 \<le> byte c \<and> byte c \<le> 57)"

definition digitsValue :: "string \<Rightarrow> nat" where
  "digitsValue ds = foldl (\<lambda>n c. 10 * n + (byte c - 48)) 0 ds"

definition Atoi :: "string \<Rightarrow> int option" where
  "Atoi s =
     (let neg = (case s of [] \<Rightarrow> False | c # _ \<Rightarrow> c = CHR ''-'');
          ds = (case s of [] \<Rightarrow> [] | c # r \<Rightarrow> if c = CHR ''+'' \<or> c = CHR ''-'' then r else s)
      in if ds = [] \<or> \<not> list_all isDigit ds then None
         else (let v = (if neg then - int (digitsValue ds) else int (digitsValue ds))
               in if v < - (2 ^ 63) \<or> 2 ^ 63 - 1 < v then None else Some v))"

text \<open>
  The verb \<open>%q\<close> of \<open>fmt\<close> on a string is \<open>strconv.Quote\<close>: the string in double quotes,
  with the quote and the backslash escaped, printable ASCII as it is, and the other
  ASCII bytes as \<open>\a \b \f \n \r \t \v\<close> or \<open>\x\<close> and two hexadecimal digits.
\<close>

definition hexDigit :: "nat \<Rightarrow> char" where
  "hexDigit n = ''0123456789abcdef'' ! n"

definition quoteByte :: "char \<Rightarrow> string" where
  "quoteByte c =
     (if c = CHR 0x22 \<or> c = CHR 0x5C then [CHR 0x5C, c]
      else if 32 \<le> byte c \<and> byte c < 127 then [c]
      else if byte c = 7 then [CHR 0x5C, CHR ''a'']
      else if byte c = 8 then [CHR 0x5C, CHR ''b'']
      else if byte c = 12 then [CHR 0x5C, CHR ''f'']
      else if byte c = 10 then [CHR 0x5C, CHR ''n'']
      else if byte c = 13 then [CHR 0x5C, CHR ''r'']
      else if byte c = 9 then [CHR 0x5C, CHR ''t'']
      else if byte c = 11 then [CHR 0x5C, CHR ''v'']
      else [CHR 0x5C, CHR ''x'', hexDigit (byte c div 16), hexDigit (byte c mod 16)])"

definition Quote :: "Unicode \<Rightarrow> string \<Rightarrow> string" where
  "Quote U s =
     (if isASCII s then [CHR 0x22] @ concat (map quoteByte s) @ [CHR 0x22] else quoteRunes U s)"

section \<open>Severity levels\<close>

type_synonym Level = int

definition LevelDebug :: Level where "LevelDebug = - 4"
definition LevelInfo :: Level where "LevelInfo = 0"
definition LevelWarn :: Level where "LevelWarn = 4"
definition LevelError :: Level where "LevelError = 8"

text \<open>
  \<open>Level.String\<close> of \<open>log/slog\<close>: the name of the nearest catalogue level at or below the
  level (\<open>DEBUG\<close> below \<open>INFO\<close>), followed by the distance to it, printed with \<open>%+d\<close>, when
  that distance is not zero.
\<close>

fun digits :: "nat \<Rightarrow> string" where
  "digits n =
     (if n < 10 then [''0123456789'' ! n]
      else digits (n div 10) @ [''0123456789'' ! (n mod 10)])"

declare digits.simps [simp del]

definition fmtSigned :: "int \<Rightarrow> string" where
  "fmtSigned v = (if v < 0 then CHR ''-'' # digits (nat (- v)) else CHR ''+'' # digits (nat v))"

definition str :: "string \<Rightarrow> Level \<Rightarrow> string" where
  "str base val = (if val = 0 then base else base @ fmtSigned val)"

definition Level_String :: "Level \<Rightarrow> string" where
  "Level_String l =
     (if l < LevelInfo then str ''DEBUG'' (l - LevelDebug)
      else if l < LevelWarn then str ''INFO'' (l - LevelInfo)
      else if l < LevelError then str ''WARN'' (l - LevelWarn)
      else str ''ERROR'' (l - LevelError))"

text \<open>
  \<open>Level.UnmarshalText\<close> of \<open>log/slog\<close>: a level name in any case, optionally followed
  by a signed decimal offset. The sum is taken in the 64-bit \<open>int\<close>, so it wraps.
\<close>

definition wrap64 :: "int \<Rightarrow> int" where
  "wrap64 x = (x + 2 ^ 63) mod 2 ^ 64 - 2 ^ 63"

definition levelOfName :: "string \<Rightarrow> Level option" where
  "levelOfName name =
     (if name = ''DEBUG'' then Some LevelDebug
      else if name = ''INFO'' then Some LevelInfo
      else if name = ''WARN'' then Some LevelWarn
      else if name = ''ERROR'' then Some LevelError
      else None)"

definition UnmarshalText :: "Unicode \<Rightarrow> string \<Rightarrow> Level option" where
  "UnmarshalText U s =
     (let i = IndexAny s ''+-'' in
      case (if 0 \<le> i then map_option (Pair (take (nat i) s)) (Atoi (drop (nat i) s))
            else Some (s, 0)) of
        None \<Rightarrow> None
      | Some (name, offset) \<Rightarrow>
          (case levelOfName (ToUpper U name) of
             None \<Rightarrow> None
           | Some l \<Rightarrow> Some (wrap64 (l + offset))))"

section \<open>The level registry\<close>

definition levels :: "Level list" where
  "levels = [LevelDebug, LevelInfo, LevelWarn, LevelError]"

definition levelMap :: "Unicode \<Rightarrow> (string \<rightharpoonup> Level)" where
  "levelMap U = foldl (\<lambda>m level. m(ToLower U (Level_String level) \<mapsto> level)) Map.empty levels"

definition Levels :: "Level list" where
  "Levels = levels"

definition LevelsString :: string where
  "LevelsString = Join (map Level_String levels) '', ''"

definition ParseLevel :: "Unicode \<Rightarrow> string \<Rightarrow> Level \<times> bool" where
  "ParseLevel U s = (case levelMap U (ToLower U s) of Some level \<Rightarrow> (level, True) | None \<Rightarrow> (0, False))"

section \<open>Loggers and the process state\<close>

text \<open>
  A \<open>slog.LevelVar\<close> is a cell of the heap, named by its address. A \<open>slog.Leveler\<close> is
  either a level or a pointer to such a cell; the field \<open>Level\<close> of the options is
  \<open>None\<close> for Go's nil interface. The process state holds the cells, the next free
  address, the default logger of package \<open>slog\<close> and the records written so far.
\<close>

text \<open>
  An attribute is a key and a value; the value is a string, the only kind of value the
  repository builds (\<open>slog.String\<close>), and the variadic arguments of \<open>Fatal\<close> are carried
  as attributes. A logger is the handler \<open>slog.New\<close> wraps: its output format, its
  options and the attributes given to \<open>WithAttrs\<close>. It writes a record when the level of
  the record is at least the level its options name at that moment (\<open>INFO\<close> when they name
  none), as the handlers of \<open>log/slog\<close> do.
\<close>

type_synonym Attr = "string \<times> string"

datatype Leveler = LevelValue Level | LevelVarPtr nat

record HandlerOptions =
  AddSource :: bool
  Level :: "Leveler option"
  ReplaceAttr :: "(string list \<Rightarrow> Attr \<Rightarrow> Attr) option"

datatype Format = JSON | Text

record Logger =
  format :: Format
  options :: HandlerOptions
  withAttrs :: "Attr list"

record Record =
  recLevel :: Level
  recMessage :: string
  recAttrs :: "Attr list"
  recFormat :: Format

record World =
  levelVars :: "nat \<Rightarrow> Level"
  nextVar :: nat
  defaultLogger :: Logger
  stderr :: "Record list"

definition LevelVar_Level :: "nat \<Rightarrow> World \<Rightarrow> Level" where
  "LevelVar_Level v w = levelVars w v"

definition LevelVar_Set :: "nat \<Rightarrow> Level \<Rightarrow> World \<Rightarrow> World" where
  "LevelVar_Set v l w = w\<lparr>levelVars := (levelVars w)(v := l)\<rparr>"

definition newLevelVar :: "World \<Rightarrow> nat \<times> World" where
  "newLevelVar w = (nextVar w, w\<lparr>levelVars := (levelVars w)(nextVar w := 0), nextVar := Suc (nextVar w)\<rparr>)"

fun Leveler_Level :: "Leveler \<Rightarrow> World \<Rightarrow> Level" where
  "Leveler_Level (LevelValue l) w = l"
| "Leveler_Level (LevelVarPtr v) w = LevelVar_Level v w"

definition minLevel :: "Logger \<Rightarrow> World \<Rightarrow> Level" where
  "minLevel lg w = (case Level (options lg) of None \<Rightarrow> LevelInfo | Some lv \<Rightarrow> Leveler_Level lv w)"

definition enabled :: "Logger \<Rightarrow> Level \<Rightarrow> World \<Rightarrow> bool" where
  "enabled lg l w = (minLevel lg w \<le> l)"

definition Logger_Log :: "Logger \<Rightarrow> Level \<Rightarrow> string \<Rightarrow> Attr list \<Rightarrow> World \<Rightarrow> World" where
  "Logger_Log lg l msg args w =
     (if \<not> enabled lg l w then w
      else w\<lparr>stderr := stderr w @
             [\<lparr>recLevel = l, recMessage = msg, recAttrs = withAttrs lg @ args, recFormat = format lg\<rparr>]\<rparr>)"

definition slog_LogAttrs :: "Level \<Rightarrow> string \<Rightarrow> Attr list \<Rightarrow> World \<Rightarrow> World" where
  "slog_LogAttrs l msg attrs w = Logger_Log (defaultLogger w) l msg attrs w"

definition slog_SetDefault :: "Logger \<Rightarrow> World \<Rightarrow> World" where
  "slog_SetDefault lg w = w\<lparr>defaultLogger := lg\<rparr>"

text \<open>
  A call either returns, or ends the process with an exit status (\<open>os.Exit\<close>).
\<close>

datatype 'a Outcome = Return 'a World | Exit int World

definition Fatal :: "Logger \<Rightarrow> string \<Rightarrow> Attr list \<Rightarrow> World \<Rightarrow> unit Outcome" where
  "Fatal log message args w = Exit 1 (Logger_Log log (LevelError + 4) message args w)"

section \<open>The logger factory\<close>

text \<open>
  \<open>Create\<close> allocates a level variable, copies the level the options name into it and
  into the field \<open>init\<close> of the handler, and builds the logger over the new variable.
  Calling \<open>Level()\<close> on the nil interface of options that name no level is a run-time
  panic, the result \<open>Inl\<close>.
\<close>

datatype panic = NilPointerDereference

record logHandler =
  init :: Level
  current :: nat

definition Create ::
  "HandlerOptions \<Rightarrow> bool \<Rightarrow> Attr list \<Rightarrow> World \<Rightarrow> panic + (Logger \<times> logHandler \<times> World)" where
  "Create opts jsonOutput attrs w =
     (case Level opts of
        None \<Rightarrow> Inl NilPointerDereference
      | Some lv \<Rightarrow>
          (let (v, w1) = newLevelVar w;
               w2 = LevelVar_Set v (Leveler_Level lv w1) w1;
               o' = \<lparr>AddSource = AddSource opts, Level = Some (LevelVarPtr v),
                    ReplaceAttr = ReplaceAttr opts\<rparr>;
               h = \<lparr>init = Leveler_Level lv w2, current = v\<rparr>
           in if jsonOutput
              then Inr (\<lparr>format = JSON, options = o', withAttrs = attrs\<rparr>, h, w2)
              else Inr (\<lparr>format = Text, options = o', withAttrs = attrs\<rparr>, h, w2)))"

definition SetDefaults ::
  "HandlerOptions \<Rightarrow> bool \<Rightarrow> Attr list \<Rightarrow> World \<Rightarrow> panic + (logHandler \<times> World)" where
  "SetDefaults opts jsonOutput attributes w =
     (case Create opts jsonOutput attributes w of
        Inl p \<Rightarrow> Inl p
      | Inr (logger, handler, w') \<Rightarrow> Inr (handler, slog_SetDefault logger w'))"

section \<open>The level control handler\<close>

text \<open>
  Of a request the handler reads the method and the path of the URL. A response writer
  records the status code and the body; the first \<open>WriteHeader\<close> fixes the status code,
  and a \<open>Write\<close> before any \<open>WriteHeader\<close> fixes it to 200, as in \<open>net/http\<close>. The handler
  exists in two revisions that differ in how PUT and POST parse the last segment of the
  path: \<open>ServeHTTP\<close> is the one of \<open>log.go\<close>, with \<open>Level.UnmarshalText\<close>, and
  \<open>ServeHTTP_ParseLevel\<close> is the earlier one, with \<open>ParseLevel\<close> and the catalogue in its
  error message.
\<close>

record Request =
  Method :: string
  Path :: string
  RawQuery :: string
  Header :: "(string \<times> string) list"
  RequestBody :: string

record ResponseWriter =
  wroteHeader :: bool
  Code :: nat
  Body :: string

definition NewRecorder :: ResponseWriter where
  "NewRecorder = \<lparr>wroteHeader = False, Code = 200, Body = []\<rparr>"

definition WriteHeader :: "nat \<Rightarrow> ResponseWriter \<Rightarrow> ResponseWriter" where
  "WriteHeader c rw = (if wroteHeader rw then rw else rw\<lparr>wroteHeader := True, Code := c\<rparr>)"

definition Write :: "string \<Rightarrow> ResponseWriter \<Rightarrow> ResponseWriter" where
  "Write b rw = (let rw' = WriteHeader 200 rw in rw'\<lparr>Body := Body rw' @ b\<rparr>)"

definition usageHint :: string where
  "usageHint = ''specify log level as last part of the URL, e.g. PUT /log/debug''"

definition ServeHTTP ::
  "Unicode \<Rightarrow> logHandler \<Rightarrow> ResponseWriter \<Rightarrow> Request \<Rightarrow> World \<Rightarrow> ResponseWriter \<times> World" where
  "ServeHTTP U h rw r w =
     (if Method r = ''GET'' then
        (Write (Level_String (LevelVar_Level (current h) w)) rw, w)
      else if Method r = ''PUT'' \<or> Method r = ''POST'' then
        (let xs = Split (Path r) CHR ''/'' in
         if length xs = 0 then (Write usageHint (WriteHeader 400 rw), w)
         else (let lastPart = xs ! (length xs - 1) in
           case UnmarshalText U lastPart of
             None \<Rightarrow> (Write (''unknown log level '' @ Quote U lastPart) (WriteHeader 400 rw), w)
           | Some lvl \<Rightarrow>
               (WriteHeader 202 rw,
                slog_LogAttrs LevelInfo ''log level set'' [(''newLevel'', Level_String lvl)]
                  (LevelVar_Set (current h) lvl w))))
      else if Method r = ''DELETE'' then
        (WriteHeader 202 rw,
         slog_LogAttrs LevelInfo ''log level reset'' [(''newLevel'', Level_String (init h))]
           (LevelVar_Set (current h) (init h) w))
      else (WriteHeader 405 rw, w))"

definition ServeHTTP_ParseLevel ::
  "Unicode \<Rightarrow> logHandler \<Rightarrow> ResponseWriter \<Rightarrow> Request \<Rightarrow> World \<Rightarrow> ResponseWriter \<times> World" where
  "ServeHTTP_ParseLevel U h rw r w =
     (if Method r = ''GET'' then
        (Write (Level_String (LevelVar_Level (current h) w)) rw, w)
      else if Method r = ''PUT'' \<or> Method r = ''POST'' then
        (let xs = Split (Path r) CHR ''/'' in
         if length xs = 0 then (Write usageHint (WriteHeader 400 rw), w)
         else (let x = xs ! (length xs - 1); (lvl, exists) = ParseLevel U x in
           if \<not> exists then
             (Write (''unknown log level '' @ Quote U x @ '', specify one of '' @ LevelsString)
                (WriteHeader 400 rw), w)
           else
             (WriteHeader 202 rw,
              slog_LogAttrs LevelInfo ''log level set'' [(''newLevel'', Level_String lvl)]
                (LevelVar_Set (current h) lvl w))))
      else if Method r = ''DELETE'' then
        (WriteHeader 202 rw,
         slog_LogAttrs LevelInfo ''log level reset'' [(''newLevel'', Level_String (init h))]
           (LevelVar_Set (current h) (init h) w))
      else (WriteHeader 405 rw, w))"

section \<open>Notions used to state the properties\<close>

text \<open>
  The last segment of a path is what follows its last slash (the whole path when it
  has none). A capitalization of a name changes the case of some of its letters. Two
  strings are equal ignoring case when lower-casing makes them equal. A server that calls
  the handler for one request after the other, each with a response writer of its own,
  is \<open>serveAll\<close>, and \<open>NewRequest\<close> is a request with a method and a path and nothing
  else. A process that has just started is \<open>initialWorld\<close>: no level cell yet,
  nothing written, and a default logger with the default options. The tables \<open>asciiOnly\<close>
  leave a string with a byte of 128 or more as it is; the examples below apply them to
  ASCII strings only, where no table is consulted.
\<close>

definition lastSegment :: "string \<Rightarrow> string" where
  "lastSegment p = rev (takeWhile (\<lambda>c. c \<noteq> CHR ''/'') (rev p))"



fun serveAll ::
  "(ResponseWriter \<Rightarrow> Request \<Rightarrow> World \<Rightarrow> ResponseWriter \<times> World) \<Rightarrow> Request list \<Rightarrow> World \<Rightarrow> World" where
  "serveAll f [] w = w"
| "serveAll f (r # rs) w = serveAll f rs (snd (f NewRecorder r w))"

definition NewRequest :: "string \<Rightarrow> string \<Rightarrow> Request" where
  "NewRequest method target = \<lparr>Method = method, Path = target, RawQuery = [], Header = [], RequestBody = []\<rparr>"

definition noLevelVars :: "nat \<Rightarrow> Level" where
  "noLevelVars v = 0"

definition initialWorld :: World where
  "initialWorld =
     \<lparr>levelVars = noLevelVars, nextVar = 0,
      defaultLogger = \<lparr>format = Text,
                        options = \<lparr>AddSource = False, Level = None, ReplaceAttr = None\<rparr>,
                        withAttrs = []\<rparr>,
      stderr = []\<rparr>"

definition asciiOnly :: Unicode where
  "asciiOnly = \<lparr>mapLower = id, mapUpper = id, quoteRunes = id\<rparr>"

section \<open>Facts about the string functions\<close>










lemma splitFrom_nonempty: "splitFrom acc c s \<noteq> []"
  by (induction s arbitrary: acc) auto

lemma Split_nonempty: "Split s c \<noteq> []"
  by (simp add: Split_def splitFrom_nonempty)

lemma splitFrom_no_sep: "c \<notin> set s \<Longrightarrow> splitFrom acc c s = [acc @ s]"
  by (induction s arbitrary: acc) auto

lemma last_splitFrom_sep:
  "c \<notin> set seg \<Longrightarrow> last (splitFrom acc c (p @ c # seg)) = seg"
  by (induction p arbitrary: acc) (auto simp: splitFrom_no_sep splitFrom_nonempty)

lemma lastSegment_no_slash: "CHR ''/'' \<notin> set p \<Longrightarrow> lastSegment p = p"
proof -
  assume a: "CHR ''/'' \<notin> set p"
  have "takeWhile (\<lambda>c. c \<noteq> CHR ''/'') (rev p) = rev p"
    using a by (intro takeWhile_eq_all_conv[THEN iffD2]) auto
  then show ?thesis by (simp only: lastSegment_def rev_rev_ident)
qed

lemma lastSegment_slash: "CHR ''/'' \<notin> set seg \<Longrightarrow> lastSegment (p @ CHR ''/'' # seg) = seg"
proof -
  assume a: "CHR ''/'' \<notin> set seg"
  have "takeWhile (\<lambda>c. c \<noteq> CHR ''/'') (rev seg @ CHR ''/'' # rev p) = rev seg"
    using a by (subst takeWhile_append2) auto
  then show ?thesis
    by (simp only: lastSegment_def rev_append rev.simps rev_rev_ident append.simps append_assoc)
qed

lemma last_Split: "last (Split p CHR ''/'') = lastSegment p"
proof (cases "CHR ''/'' \<in> set p")
  case False
  then show ?thesis by (simp add: Split_def splitFrom_no_sep lastSegment_no_slash)
next
  case True
  then obtain ys zs where p: "p = ys @ CHR ''/'' # zs" and z: "CHR ''/'' \<notin> set zs"
    using split_list_last [of "CHR ''/''" p] by blast
  show ?thesis
    unfolding p Split_def using z by (simp add: last_splitFrom_sep lastSegment_slash)
qed

lemma Split_last_index:
  "Split p CHR ''/'' ! (length (Split p CHR ''/'') - 1) = lastSegment p"
  using last_conv_nth [OF Split_nonempty, of p "CHR ''/''"] by (simp add: last_Split)

section \<open>Facts about the level registry\<close>

lemma Level_String_levels:
  "Level_String LevelDebug = ''DEBUG''" "Level_String LevelInfo = ''INFO''"
  "Level_String LevelWarn = ''WARN''" "Level_String LevelError = ''ERROR''"
  by (simp_all add: Level_String_def str_def LevelDebug_def LevelInfo_def LevelWarn_def LevelError_def)

lemma ToLower_names:
  "ToLower U ''DEBUG'' = ''debug''" "ToLower U ''INFO'' = ''info''"
  "ToLower U ''WARN'' = ''warn''" "ToLower U ''ERROR'' = ''error''"
  by (simp_all add: ToLower_def isASCII_def byte_def lowerByte_def char_of_eq_iff)

lemma levelMap_eq:
  "levelMap U = [''debug'' \<mapsto> LevelDebug, ''info'' \<mapsto> LevelInfo, ''warn'' \<mapsto> LevelWarn, ''error'' \<mapsto> LevelError]"
  by (simp add: levelMap_def levels_def Level_String_levels ToLower_names)





lemma byte_less_256: "byte c < 256"
  by (simp add: byte_def)






section \<open>Facts about the handler\<close>

lemma WriteHeader_NewRecorder:
  "WriteHeader c NewRecorder = \<lparr>wroteHeader = True, Code = c, Body = []\<rparr>"
  by (simp add: WriteHeader_def NewRecorder_def)

lemma Write_NewRecorder:
  "Write b NewRecorder = \<lparr>wroteHeader = True, Code = 200, Body = b\<rparr>"
  by (simp add: Write_def WriteHeader_def NewRecorder_def)

lemma Write_WriteHeader_NewRecorder:
  "Write b (WriteHeader c NewRecorder) = \<lparr>wroteHeader = True, Code = c, Body = b\<rparr>"
  by (simp add: Write_def WriteHeader_def NewRecorder_def)

lemma Write_written:
  "Write b \<lparr>wroteHeader = True, Code = c, Body = []\<rparr> = \<lparr>wroteHeader = True, Code = c, Body = b\<rparr>"
  by (simp add: Write_def WriteHeader_def)

lemma Split_last_index_Suc:
  "Split p CHR ''/'' ! (length (Split p CHR ''/'') - Suc 0) = lastSegment p"
  using Split_last_index [of p] by simp

lemma levelVars_Logger_Log: "levelVars (Logger_Log lg l msg args w) = levelVars w"
  by (simp add: Logger_Log_def)

lemma levelVars_slog_LogAttrs: "levelVars (slog_LogAttrs l msg attrs w) = levelVars w"
  by (simp add: slog_LogAttrs_def levelVars_Logger_Log)

lemma LevelVar_Level_slog_LogAttrs:
  "LevelVar_Level v (slog_LogAttrs l msg attrs w) = LevelVar_Level v w"
  by (simp add: LevelVar_Level_def levelVars_slog_LogAttrs)

lemma LevelVar_Level_Set: "LevelVar_Level v (LevelVar_Set v l w) = l"
  by (simp add: LevelVar_Level_def LevelVar_Set_def)

lemma levelVars_Set: "levelVars (LevelVar_Set v l w) = (levelVars w)(v := l)"
  by (simp add: LevelVar_Set_def)

lemma ServeHTTP_get:
  "Method r = ''GET'' \<Longrightarrow>
   ServeHTTP U h NewRecorder r w =
     (\<lparr>wroteHeader = True, Code = 200, Body = Level_String (LevelVar_Level (current h) w)\<rparr>, w)"
  by (simp add: ServeHTTP_def Write_NewRecorder)

lemma ServeHTTP_ParseLevel_get:
  "Method r = ''GET'' \<Longrightarrow>
   ServeHTTP_ParseLevel U h NewRecorder r w =
     (\<lparr>wroteHeader = True, Code = 200, Body = Level_String (LevelVar_Level (current h) w)\<rparr>, w)"
  by (simp add: ServeHTTP_ParseLevel_def Write_NewRecorder)

lemma ServeHTTP_put:
  "Method r = ''PUT'' \<or> Method r = ''POST'' \<Longrightarrow>
   ServeHTTP U h NewRecorder r w =
     (case UnmarshalText U (lastSegment (Path r)) of
        None \<Rightarrow> (\<lparr>wroteHeader = True, Code = 400,
                   Body = ''unknown log level '' @ Quote U (lastSegment (Path r))\<rparr>, w)
      | Some lvl \<Rightarrow>
          (\<lparr>wroteHeader = True, Code = 202, Body = []\<rparr>,
           slog_LogAttrs LevelInfo ''log level set'' [(''newLevel'', Level_String lvl)]
             (LevelVar_Set (current h) lvl w)))"
  by (auto simp: ServeHTTP_def Let_def Split_nonempty Split_last_index_Suc
      Write_written WriteHeader_NewRecorder split: option.splits)

lemma ServeHTTP_ParseLevel_put:
  "Method r = ''PUT'' \<or> Method r = ''POST'' \<Longrightarrow>
   ServeHTTP_ParseLevel U h NewRecorder r w =
     (if \<not> snd (ParseLevel U (lastSegment (Path r))) then
        (\<lparr>wroteHeader = True, Code = 400,
          Body = ''unknown log level '' @ Quote U (lastSegment (Path r)) @
                 '', specify one of '' @ LevelsString\<rparr>, w)
      else
        (\<lparr>wroteHeader = True, Code = 202, Body = []\<rparr>,
         slog_LogAttrs LevelInfo ''log level set''
           [(''newLevel'', Level_String (fst (ParseLevel U (lastSegment (Path r)))))]
           (LevelVar_Set (current h) (fst (ParseLevel U (lastSegment (Path r)))) w)))"
  by (auto simp: ServeHTTP_ParseLevel_def Let_def Split_nonempty Split_last_index_Suc
      Write_written WriteHeader_NewRecorder split: prod.splits)

lemma ServeHTTP_delete:
  "Method r = ''DELETE'' \<Longrightarrow>
   ServeHTTP U h NewRecorder r w =
     (\<lparr>wroteHeader = True, Code = 202, Body = []\<rparr>,
      slog_LogAttrs LevelInfo ''log level reset'' [(''newLevel'', Level_String (init h))]
        (LevelVar_Set (current h) (init h) w))"
  by (simp add: ServeHTTP_def WriteHeader_NewRecorder)

lemma ServeHTTP_ParseLevel_delete:
  "Method r = ''DELETE'' \<Longrightarrow>
   ServeHTTP_ParseLevel U h NewRecorder r w =
     (\<lparr>wroteHeader = True, Code = 202, Body = []\<rparr>,
      slog_LogAttrs LevelInfo ''log level reset'' [(''newLevel'', Level_String (init h))]
        (LevelVar_Set (current h) (init h) w))"
  by (simp add: ServeHTTP_ParseLevel_def WriteHeader_NewRecorder)

lemma ServeHTTP_other:
  "Method r \<noteq> ''GET'' \<Longrightarrow> Method r \<noteq> ''PUT'' \<Longrightarrow> Method r \<noteq> ''POST'' \<Longrightarrow>
   Method r \<noteq> ''DELETE'' \<Longrightarrow>
   ServeHTTP U h NewRecorder r w = (\<lparr>wroteHeader = True, Code = 405, Body = []\<rparr>, w)"
  by (simp add: ServeHTTP_def WriteHeader_NewRecorder)

lemma ServeHTTP_ParseLevel_other:
  "Method r \<noteq> ''GET'' \<Longrightarrow> Method r \<noteq> ''PUT'' \<Longrightarrow> Method r \<noteq> ''POST'' \<Longrightarrow>
   Method r \<noteq> ''DELETE'' \<Longrightarrow>
   ServeHTTP_ParseLevel U h NewRecorder r w = (\<lparr>wroteHeader = True, Code = 405, Body = []\<rparr>, w)"
  by (simp add: ServeHTTP_ParseLevel_def WriteHeader_NewRecorder)

lemma ToUpper_names:
  "ToUpper U ''DEBUG'' = ''DEBUG''" "ToUpper U ''INFO'' = ''INFO''"
  "ToUpper U ''WARN'' = ''WARN''" "ToUpper U ''ERROR'' = ''ERROR''"
  "ToUpper U ''debug'' = ''DEBUG''" "ToUpper U ''info'' = ''INFO''"
  "ToUpper U ''warn'' = ''WARN''" "ToUpper U ''error'' = ''ERROR''"
  by (simp_all add: ToUpper_def isASCII_def byte_def upperByte_def char_of_eq_iff)

lemma wrap64_small: "- (2 ^ 63) \<le> x \<Longrightarrow> x < 2 ^ 63 \<Longrightarrow> wrap64 x = x"
  by (simp add: wrap64_def)

lemma wrap64_levels:
  "wrap64 LevelDebug = LevelDebug" "wrap64 LevelInfo = LevelInfo"
  "wrap64 LevelWarn = LevelWarn" "wrap64 LevelError = LevelError"
  by (simp_all add: wrap64_def LevelDebug_def LevelInfo_def LevelWarn_def LevelError_def)

lemma UnmarshalText_names:
  "UnmarshalText U ''DEBUG'' = Some LevelDebug" "UnmarshalText U ''INFO'' = Some LevelInfo"
  "UnmarshalText U ''WARN'' = Some LevelWarn" "UnmarshalText U ''ERROR'' = Some LevelError"
  "UnmarshalText U ''debug'' = Some LevelDebug" "UnmarshalText U ''info'' = Some LevelInfo"
  "UnmarshalText U ''warn'' = Some LevelWarn" "UnmarshalText U ''error'' = Some LevelError"
  by (simp_all add: UnmarshalText_def ToUpper_names levelOfName_def wrap64_levels)

lemma UnmarshalText_name:
  "L \<in> set levels \<Longrightarrow> name = Level_String L \<or> name = ToLower U (Level_String L) \<Longrightarrow>
   UnmarshalText U name = Some L"
  by (auto simp: levels_def Level_String_levels ToLower_names UnmarshalText_names)

lemma ToLower_lower_names:
  "ToLower U ''debug'' = ''debug''" "ToLower U ''info'' = ''info''"
  "ToLower U ''warn'' = ''warn''" "ToLower U ''error'' = ''error''"
  by (simp_all add: ToLower_def isASCII_def byte_def lowerByte_def)

lemma ParseLevel_lower_name:
  "L \<in> set levels \<Longrightarrow> name = Level_String L \<or> name = ToLower U (Level_String L) \<Longrightarrow>
   ParseLevel U name = (L, True)"
  by (auto simp: ParseLevel_def levelMap_eq levels_def Level_String_levels ToLower_names
      ToLower_lower_names)

lemma name_no_slash:
  "L \<in> set levels \<Longrightarrow> name = Level_String L \<or> name = ToLower U (Level_String L) \<Longrightarrow>
   CHR ''/'' \<notin> set name"
  by (auto simp: levels_def Level_String_levels ToLower_names)

lemma lastSegment_name:
  "L \<in> set levels \<Longrightarrow> name = Level_String L \<or> name = ToLower U (Level_String L) \<Longrightarrow>
   lastSegment (p @ ''/'' @ name) = name"
  using name_no_slash [of L name U] lastSegment_slash [of name p] by simp

lemma quoteByte_plain:
  "32 \<le> byte c \<and> byte c < 127 \<and> c \<noteq> CHR 0x22 \<and> c \<noteq> CHR 0x5C \<Longrightarrow> quoteByte c = [c]"
  by (simp add: quoteByte_def)

lemma plain_ascii:
  "\<forall>c \<in> set s. 32 \<le> byte c \<and> byte c < 127 \<and> c \<noteq> CHR 0x22 \<and> c \<noteq> CHR 0x5C \<Longrightarrow> isASCII s"
  unfolding isASCII_def by (induction s) simp_all

lemma plain_concat:
  "\<forall>c \<in> set s. 32 \<le> byte c \<and> byte c < 127 \<and> c \<noteq> CHR 0x22 \<and> c \<noteq> CHR 0x5C \<Longrightarrow> concat (map quoteByte s) = s"
  by (induction s) (simp_all add: quoteByte_plain)

lemma Quote_plain:
  "\<forall>c \<in> set s. 32 \<le> byte c \<and> byte c < 127 \<and> c \<noteq> CHR 0x22 \<and> c \<noteq> CHR 0x5C \<Longrightarrow>
   Quote U s = [CHR 0x22] @ s @ [CHR 0x22]"
  using plain_ascii [of s] plain_concat [of s] by (simp add: Quote_def)

lemma LevelsString_eq: "LevelsString = ''DEBUG, INFO, WARN, ERROR''"
  by (simp add: LevelsString_def levels_def Level_String_levels)

lemma Quote_bogus: "Quote U ''bogus'' = [CHR 0x22] @ ''bogus'' @ [CHR 0x22]"
  by (rule Quote_plain) (simp add: byte_def)

lemma ParseLevel_bogus: "ParseLevel asciiOnly ''bogus'' = (0, False)"
  by (simp add: ParseLevel_def levelMap_eq ToLower_def isASCII_def byte_def lowerByte_def)

lemma UnmarshalText_bogus: "UnmarshalText U ''bogus'' = None"
  by (simp add: UnmarshalText_def ToUpper_def isASCII_def byte_def upperByte_def levelOfName_def char_of_eq_iff)

lemma Level_String_not_usageHint: "Level_String l \<noteq> usageHint"
  by (simp add: Level_String_def str_def usageHint_def)

lemma ParseLevel_empty: "ParseLevel U [] = (0, False)"
  by (simp add: ParseLevel_def levelMap_eq ToLower_def isASCII_def)

lemma UnmarshalText_empty: "UnmarshalText U [] = None"
  by (simp add: UnmarshalText_def ToUpper_def isASCII_def levelOfName_def)

lemma Quote_empty: "Quote U [] = [CHR 0x22, CHR 0x22]"
  by (simp add: Quote_def isASCII_def)

lemma lastSegment_trailing_slash: "lastSegment (q @ ''/'') = []"
  using lastSegment_slash [of "[]" q] by simp

lemma ServeHTTP_Body_not_usageHint: "Body (fst (ServeHTTP U h NewRecorder r w)) \<noteq> usageHint"
proof -
  consider (get) "Method r = ''GET''" | (put) "Method r = ''PUT'' \<or> Method r = ''POST''"
    | (del) "Method r = ''DELETE''"
    | (other) "Method r \<noteq> ''GET''" "Method r \<noteq> ''PUT''" "Method r \<noteq> ''POST''" "Method r \<noteq> ''DELETE''"
    by blast
  then show ?thesis
  proof cases
    case get
    then show ?thesis by (simp add: ServeHTTP_get Level_String_not_usageHint)
  next
    case put
    then show ?thesis
      by (simp add: ServeHTTP_put usageHint_def split: option.split)
  next
    case del
    then show ?thesis by (simp add: ServeHTTP_delete usageHint_def)
  next
    case other
    then show ?thesis by (simp add: ServeHTTP_other usageHint_def)
  qed
qed

lemma ServeHTTP_ParseLevel_Body_not_usageHint:
  "Body (fst (ServeHTTP_ParseLevel U h NewRecorder r w)) \<noteq> usageHint"
proof -
  consider (get) "Method r = ''GET''" | (put) "Method r = ''PUT'' \<or> Method r = ''POST''"
    | (del) "Method r = ''DELETE''"
    | (other) "Method r \<noteq> ''GET''" "Method r \<noteq> ''PUT''" "Method r \<noteq> ''POST''" "Method r \<noteq> ''DELETE''"
    by blast
  then show ?thesis
  proof cases
    case get
    then show ?thesis by (simp add: ServeHTTP_ParseLevel_get Level_String_not_usageHint)
  next
    case put
    then show ?thesis
      by (simp add: ServeHTTP_ParseLevel_put usageHint_def)
  next
    case del
    then show ?thesis by (simp add: ServeHTTP_ParseLevel_delete usageHint_def)
  next
    case other
    then show ?thesis by (simp add: ServeHTTP_ParseLevel_other usageHint_def)
  qed
qed

lemma ServeHTTP_cell_determined:
  assumes "Method r1 = Method r2" and "Path r1 = Path r2"
    and "LevelVar_Level (current h) w1 = LevelVar_Level (current h) w2"
  shows "fst (ServeHTTP U h NewRecorder r1 w1) = fst (ServeHTTP U h NewRecorder r2 w2) \<and>
         LevelVar_Level (current h) (snd (ServeHTTP U h NewRecorder r1 w1)) =
         LevelVar_Level (current h) (snd (ServeHTTP U h NewRecorder r2 w2))"
proof -
  consider (get) "Method r1 = ''GET''" | (put) "Method r1 = ''PUT'' \<or> Method r1 = ''POST''"
    | (del) "Method r1 = ''DELETE''"
    | (other) "Method r1 \<noteq> ''GET''" "Method r1 \<noteq> ''PUT''" "Method r1 \<noteq> ''POST''" "Method r1 \<noteq> ''DELETE''"
    by blast
  then show ?thesis
  proof cases
    case get
    then have "Method r2 = ''GET''" using assms(1) by simp
    with get show ?thesis using assms(3) by (simp add: ServeHTTP_get)
  next
    case put
    then have "Method r2 = ''PUT'' \<or> Method r2 = ''POST''" using assms(1) by simp
    with put show ?thesis
      using assms(2,3)
      by (simp add: ServeHTTP_put LevelVar_Level_slog_LogAttrs LevelVar_Level_Set split: option.split)
  next
    case del
    then have "Method r2 = ''DELETE''" using assms(1) by simp
    with del show ?thesis
      by (simp add: ServeHTTP_delete LevelVar_Level_slog_LogAttrs LevelVar_Level_Set)
  next
    case other
    then have "Method r2 \<noteq> ''GET''" "Method r2 \<noteq> ''PUT''" "Method r2 \<noteq> ''POST''" "Method r2 \<noteq> ''DELETE''"
      using assms(1) by simp_all
    with other show ?thesis using assms(3) by (simp add: ServeHTTP_other)
  qed
qed

lemma ServeHTTP_ParseLevel_cell_determined:
  assumes "Method r1 = Method r2" and "Path r1 = Path r2"
    and "LevelVar_Level (current h) w1 = LevelVar_Level (current h) w2"
  shows "fst (ServeHTTP_ParseLevel U h NewRecorder r1 w1) = fst (ServeHTTP_ParseLevel U h NewRecorder r2 w2) \<and>
         LevelVar_Level (current h) (snd (ServeHTTP_ParseLevel U h NewRecorder r1 w1)) =
         LevelVar_Level (current h) (snd (ServeHTTP_ParseLevel U h NewRecorder r2 w2))"
proof -
  consider (get) "Method r1 = ''GET''" | (put) "Method r1 = ''PUT'' \<or> Method r1 = ''POST''"
    | (del) "Method r1 = ''DELETE''"
    | (other) "Method r1 \<noteq> ''GET''" "Method r1 \<noteq> ''PUT''" "Method r1 \<noteq> ''POST''" "Method r1 \<noteq> ''DELETE''"
    by blast
  then show ?thesis
  proof cases
    case get
    then have "Method r2 = ''GET''" using assms(1) by simp
    with get show ?thesis using assms(3) by (simp add: ServeHTTP_ParseLevel_get)
  next
    case put
    then have "Method r2 = ''PUT'' \<or> Method r2 = ''POST''" using assms(1) by simp
    with put show ?thesis
      using assms(2,3)
      by (simp add: ServeHTTP_ParseLevel_put LevelVar_Level_slog_LogAttrs LevelVar_Level_Set)
  next
    case del
    then have "Method r2 = ''DELETE''" using assms(1) by simp
    with del show ?thesis
      by (simp add: ServeHTTP_ParseLevel_delete LevelVar_Level_slog_LogAttrs LevelVar_Level_Set)
  next
    case other
    then have "Method r2 \<noteq> ''GET''" "Method r2 \<noteq> ''PUT''" "Method r2 \<noteq> ''POST''" "Method r2 \<noteq> ''DELETE''"
      using assms(1) by simp_all
    with other show ?thesis using assms(3) by (simp add: ServeHTTP_ParseLevel_other)
  qed
qed

lemma lastSegment_examples:
  "lastSegment ''/log/debug'' = ''debug''" "lastSegment ''/log/error'' = ''error''"
  "lastSegment ''/log/warn'' = ''warn''" "lastSegment ''/log/'' = []" "lastSegment ''/log'' = ''log''"
  by (simp_all add: lastSegment_def)

section \<open>Facts about the logger factory\<close>

lemma Create_Some:
  "Level opts = Some lv \<Longrightarrow>
   Create opts jsonOutput attrs w =
     Inr (\<lparr>format = (if jsonOutput then JSON else Text),
           options = \<lparr>AddSource = AddSource opts, Level = Some (LevelVarPtr (nextVar w)),
                      ReplaceAttr = ReplaceAttr opts\<rparr>,
           withAttrs = attrs\<rparr>,
          \<lparr>init = Leveler_Level lv (w\<lparr>levelVars := (levelVars w)(nextVar w := 0)\<rparr>),
           current = nextVar w\<rparr>,
          w\<lparr>levelVars := (levelVars w)
                (nextVar w := Leveler_Level lv (w\<lparr>levelVars := (levelVars w)(nextVar w := 0)\<rparr>)),
            nextVar := Suc (nextVar w)\<rparr>)"
  by (cases lv) (simp_all add: Create_def newLevelVar_def LevelVar_Set_def LevelVar_Level_def)

lemma Create_None: "Level opts = None \<Longrightarrow> Create opts jsonOutput attrs w = Inl NilPointerDereference"
  by (simp add: Create_def)

lemma Create_Inr_Some:
  "Create opts jsonOutput attrs w = Inr x \<Longrightarrow> \<exists>lv. Level opts = Some lv"
  by (cases "Level opts") (simp_all add: Create_None)

lemma Leveler_Level_fresh:
  "Leveler_Level (LevelValue L) (w\<lparr>levelVars := (levelVars w)(nextVar w := 0)\<rparr>) = L"
  "v < nextVar w \<Longrightarrow>
   Leveler_Level (LevelVarPtr v) (w\<lparr>levelVars := (levelVars w)(nextVar w := 0)\<rparr>) = LevelVar_Level v w"
  by (simp_all add: LevelVar_Level_def)





lemma Create_info:
  "Create \<lparr>AddSource = False, Level = Some (LevelValue LevelInfo), ReplaceAttr = None\<rparr> False [] initialWorld =
     Inr (\<lparr>format = Text,
            options = \<lparr>AddSource = False, Level = Some (LevelVarPtr 0), ReplaceAttr = None\<rparr>,
            withAttrs = []\<rparr>,
          \<lparr>init = LevelInfo, current = 0\<rparr>,
          initialWorld\<lparr>levelVars := (levelVars initialWorld)(0 := LevelInfo), nextVar := Suc 0\<rparr>)"
  by (simp add: Create_Some initialWorld_def)

lemma levels_below_fatal: "L \<in> set levels \<Longrightarrow> L < LevelError + 4"
  by (auto simp: levels_def LevelDebug_def LevelInfo_def LevelWarn_def LevelError_def)

lemma Create_16:
  "Create \<lparr>AddSource = False, Level = Some (LevelValue 16), ReplaceAttr = None\<rparr> False [] initialWorld =
     Inr (\<lparr>format = Text,
            options = \<lparr>AddSource = False, Level = Some (LevelVarPtr 0), ReplaceAttr = None\<rparr>,
            withAttrs = []\<rparr>,
          \<lparr>init = 16, current = 0\<rparr>,
          initialWorld\<lparr>levelVars := (levelVars initialWorld)(0 := 16), nextVar := Suc 0\<rparr>)"
  by (simp add: Create_Some initialWorld_def)

lemma Atoi_plus_8: "Atoi ''+8'' = Some 8"
  by (simp add: Atoi_def isDigit_def digitsValue_def byte_def)

lemma UnmarshalText_error_plus_8: "UnmarshalText U ''error+8'' = Some 16"
  by (simp add: UnmarshalText_def Atoi_plus_8 ToUpper_names levelOfName_def wrap64_def LevelError_def)

lemma put_offset_sets_cell:
  "ServeHTTP U h NewRecorder (NewRequest ''PUT'' ''/log/error+8'') w =
     (\<lparr>wroteHeader = True, Code = 202, Body = []\<rparr>,
      slog_LogAttrs LevelInfo ''log level set'' [(''newLevel'', Level_String 16)]
        (LevelVar_Set (current h) 16 w))"
proof -
  have seg: "lastSegment ''/log/error+8'' = ''error+8''"
    by (simp add: lastSegment_def)
  show ?thesis
    by (simp add: ServeHTTP_put NewRequest_def seg UnmarshalText_error_plus_8)
qed

lemma Level_String_16: "Level_String 16 = ''ERROR+8''"
  by (simp add: Level_String_def str_def LevelInfo_def LevelWarn_def LevelError_def fmtSigned_def
      digits.simps)

section \<open>Properties of the level registry\<close>



section \<open>Properties of the level control handler\<close>

text \<open>
  C1. For every level \<open>X\<close> of the catalogue, a PUT or POST request whose path ends in a
  slash and the name of \<open>X\<close> (as \<open>Level.String\<close> prints it, or in lower case) sets the
  shared level cell to \<open>X\<close> and is answered 202 with an empty body; a GET that follows is
  answered 200 with the name of \<open>X\<close> as its body. This holds for the handler that parses
  with \<open>ParseLevel\<close> and for the one that parses with \<open>UnmarshalText\<close>.
\<close>

theorem put_then_get_round_trip:
  assumes "X \<in> set levels"
    and "name = Level_String X \<or> name = ToLower U (Level_String X)"
    and "Method r = ''PUT'' \<or> Method r = ''POST''"
    and "Path r = p @ ''/'' @ name"
    and "Method g = ''GET''"
  shows "ServeHTTP_ParseLevel U h NewRecorder r w =
           (\<lparr>wroteHeader = True, Code = 202, Body = []\<rparr>,
            slog_LogAttrs LevelInfo ''log level set'' [(''newLevel'', Level_String X)]
              (LevelVar_Set (current h) X w)) \<and>
         LevelVar_Level (current h) (snd (ServeHTTP_ParseLevel U h NewRecorder r w)) = X \<and>
         fst (ServeHTTP_ParseLevel U h NewRecorder g (snd (ServeHTTP_ParseLevel U h NewRecorder r w))) =
           \<lparr>wroteHeader = True, Code = 200, Body = Level_String X\<rparr> \<and>
         ServeHTTP U h NewRecorder r w =
           (\<lparr>wroteHeader = True, Code = 202, Body = []\<rparr>,
            slog_LogAttrs LevelInfo ''log level set'' [(''newLevel'', Level_String X)]
              (LevelVar_Set (current h) X w)) \<and>
         LevelVar_Level (current h) (snd (ServeHTTP U h NewRecorder r w)) = X \<and>
         fst (ServeHTTP U h NewRecorder g (snd (ServeHTTP U h NewRecorder r w))) =
           \<lparr>wroteHeader = True, Code = 200, Body = Level_String X\<rparr>"
proof -
  have seg: "lastSegment (Path r) = name"
    using lastSegment_name [OF assms(1,2), of p] assms(4) by simp
  have a: "ServeHTTP_ParseLevel U h NewRecorder r w =
           (\<lparr>wroteHeader = True, Code = 202, Body = []\<rparr>,
            slog_LogAttrs LevelInfo ''log level set'' [(''newLevel'', Level_String X)]
              (LevelVar_Set (current h) X w))"
    using assms(3) by (simp add: ServeHTTP_ParseLevel_put seg ParseLevel_lower_name [OF assms(1,2)])
  have b: "ServeHTTP U h NewRecorder r w =
           (\<lparr>wroteHeader = True, Code = 202, Body = []\<rparr>,
            slog_LogAttrs LevelInfo ''log level set'' [(''newLevel'', Level_String X)]
              (LevelVar_Set (current h) X w))"
    using assms(3) by (simp add: ServeHTTP_put seg UnmarshalText_name [OF assms(1,2)])
  show ?thesis
    using assms(5)
    by (simp add: a b ServeHTTP_get ServeHTTP_ParseLevel_get LevelVar_Level_slog_LogAttrs
        LevelVar_Level_Set)
qed

theorem put_then_get_round_trip_witness:
  "LevelError \<in> set levels \<and>
   Method (NewRequest ''PUT'' ''/log/error'') = ''PUT'' \<and>
   Path (NewRequest ''PUT'' ''/log/error'') = ''/log'' @ ''/'' @ ToLower asciiOnly (Level_String LevelError) \<and>
   Method (NewRequest ''GET'' ''/log'') = ''GET'' \<and>
   fst (ServeHTTP_ParseLevel asciiOnly \<lparr>init = 0, current = 0\<rparr> NewRecorder
          (NewRequest ''PUT'' ''/log/error'') initialWorld) =
     \<lparr>wroteHeader = True, Code = 202, Body = []\<rparr> \<and>
   LevelVar_Level 0 (snd (ServeHTTP_ParseLevel asciiOnly \<lparr>init = 0, current = 0\<rparr> NewRecorder
          (NewRequest ''PUT'' ''/log/error'') initialWorld)) = LevelError \<and>
   fst (ServeHTTP_ParseLevel asciiOnly \<lparr>init = 0, current = 0\<rparr> NewRecorder (NewRequest ''GET'' ''/log'')
          (snd (ServeHTTP_ParseLevel asciiOnly \<lparr>init = 0, current = 0\<rparr> NewRecorder
             (NewRequest ''PUT'' ''/log/error'') initialWorld))) =
     \<lparr>wroteHeader = True, Code = 200, Body = ''ERROR''\<rparr> \<and>
   fst (ServeHTTP asciiOnly \<lparr>init = 0, current = 0\<rparr> NewRecorder (NewRequest ''GET'' ''/log'')
          (snd (ServeHTTP asciiOnly \<lparr>init = 0, current = 0\<rparr> NewRecorder
             (NewRequest ''PUT'' ''/log/error'') initialWorld))) =
     \<lparr>wroteHeader = True, Code = 200, Body = ''ERROR''\<rparr>"
proof -
  have x: "LevelError \<in> set levels"
    by (simp add: levels_def)
  have n: "''error'' = Level_String LevelError \<or> ''error'' = ToLower asciiOnly (Level_String LevelError)"
    by (simp add: Level_String_levels ToLower_names)
  have m1: "Method (NewRequest ''PUT'' ''/log/error'') = ''PUT''"
    by (simp add: NewRequest_def)
  then have m: "Method (NewRequest ''PUT'' ''/log/error'') = ''PUT'' \<or>
           Method (NewRequest ''PUT'' ''/log/error'') = ''POST''"
    by simp
  have p: "Path (NewRequest ''PUT'' ''/log/error'') = ''/log'' @ ''/'' @ ''error''"
    by (simp add: NewRequest_def)
  have p2: "Path (NewRequest ''PUT'' ''/log/error'') =
      ''/log'' @ ''/'' @ ToLower asciiOnly (Level_String LevelError)"
    by (simp add: NewRequest_def Level_String_levels ToLower_names)
  have g: "Method (NewRequest ''GET'' ''/log'') = ''GET''"
    by (simp add: NewRequest_def)
  note t = put_then_get_round_trip [OF x n m p g, of "\<lparr>init = 0, current = 0\<rparr>" initialWorld]
  have e: "Level_String LevelError = ''ERROR''"
    by (rule Level_String_levels)
  have t1: "fst (ServeHTTP_ParseLevel asciiOnly \<lparr>init = 0, current = 0\<rparr> NewRecorder
          (NewRequest ''PUT'' ''/log/error'') initialWorld) =
     \<lparr>wroteHeader = True, Code = 202, Body = []\<rparr>"
    using t by (simp only: fst_conv)
  note t' = t [unfolded e logHandler.select_convs]
  from t' have c2: "LevelVar_Level 0 (snd (ServeHTTP_ParseLevel asciiOnly \<lparr>init = 0, current = 0\<rparr> NewRecorder
          (NewRequest ''PUT'' ''/log/error'') initialWorld)) = LevelError"
    by (elim conjE)
  from t' have c3: "fst (ServeHTTP_ParseLevel asciiOnly \<lparr>init = 0, current = 0\<rparr> NewRecorder (NewRequest ''GET'' ''/log'')
          (snd (ServeHTTP_ParseLevel asciiOnly \<lparr>init = 0, current = 0\<rparr> NewRecorder
             (NewRequest ''PUT'' ''/log/error'') initialWorld))) =
     \<lparr>wroteHeader = True, Code = 200, Body = ''ERROR''\<rparr>"
    by (elim conjE)
  from t' have c6: "fst (ServeHTTP asciiOnly \<lparr>init = 0, current = 0\<rparr> NewRecorder (NewRequest ''GET'' ''/log'')
          (snd (ServeHTTP asciiOnly \<lparr>init = 0, current = 0\<rparr> NewRecorder
             (NewRequest ''PUT'' ''/log/error'') initialWorld))) =
     \<lparr>wroteHeader = True, Code = 200, Body = ''ERROR''\<rparr>"
    by (elim conjE)
  show ?thesis
    by (intro conjI x m1 p2 g t1 c2 c3 c6)
qed

text \<open>
  C2. A PUT or POST request whose last path segment does not parse as a level is
  answered 400. The body names the segment, quoted, and the handler that parses with
  \<open>ParseLevel\<close> appends the catalogue as \<open>LevelsString\<close> prints it. The process state is
  returned as it was: the level cell is not written and nothing is logged.
\<close>

theorem put_unparsable_rejected:
  assumes "Method r = ''PUT'' \<or> Method r = ''POST''"
  shows "(\<not> snd (ParseLevel U (lastSegment (Path r))) \<longrightarrow>
            ServeHTTP_ParseLevel U h NewRecorder r w =
              (\<lparr>wroteHeader = True, Code = 400,
                Body = ''unknown log level '' @ Quote U (lastSegment (Path r)) @
                       '', specify one of '' @ LevelsString\<rparr>, w)) \<and>
         (UnmarshalText U (lastSegment (Path r)) = None \<longrightarrow>
            ServeHTTP U h NewRecorder r w =
              (\<lparr>wroteHeader = True, Code = 400,
                Body = ''unknown log level '' @ Quote U (lastSegment (Path r))\<rparr>, w))"
  using assms by (simp add: ServeHTTP_put ServeHTTP_ParseLevel_put)

theorem put_unparsable_rejected_witness:
  "Method (NewRequest ''PUT'' ''/log/bogus'') = ''PUT'' \<and>
   \<not> snd (ParseLevel asciiOnly (lastSegment (Path (NewRequest ''PUT'' ''/log/bogus'')))) \<and>
   ServeHTTP_ParseLevel asciiOnly \<lparr>init = 0, current = 0\<rparr> NewRecorder
       (NewRequest ''PUT'' ''/log/bogus'') initialWorld =
     (\<lparr>wroteHeader = True, Code = 400,
       Body = ''unknown log level '' @ [CHR 0x22] @ ''bogus'' @ [CHR 0x22] @
              '', specify one of DEBUG, INFO, WARN, ERROR''\<rparr>, initialWorld) \<and>
   UnmarshalText asciiOnly (lastSegment (Path (NewRequest ''PUT'' ''/log/bogus''))) = None \<and>
   ServeHTTP asciiOnly \<lparr>init = 0, current = 0\<rparr> NewRecorder
       (NewRequest ''PUT'' ''/log/bogus'') initialWorld =
     (\<lparr>wroteHeader = True, Code = 400,
       Body = ''unknown log level '' @ [CHR 0x22] @ ''bogus'' @ [CHR 0x22]\<rparr>, initialWorld)"
proof -
  have seg: "lastSegment (Path (NewRequest ''PUT'' ''/log/bogus'')) = ''bogus''"
    using lastSegment_slash [of "''bogus''" "''/log''"] by (simp add: NewRequest_def)
  have m: "Method (NewRequest ''PUT'' ''/log/bogus'') = ''PUT''"
    by (simp add: NewRequest_def)
  then have m': "Method (NewRequest ''PUT'' ''/log/bogus'') = ''PUT'' \<or>
      Method (NewRequest ''PUT'' ''/log/bogus'') = ''POST''"
    by simp
  have a: "\<not> snd (ParseLevel asciiOnly (lastSegment (Path (NewRequest ''PUT'' ''/log/bogus''))))"
    by (simp add: seg ParseLevel_bogus)
  have b: "UnmarshalText asciiOnly (lastSegment (Path (NewRequest ''PUT'' ''/log/bogus''))) = None"
    by (simp add: seg UnmarshalText_bogus)
  note t = put_unparsable_rejected [OF m', of asciiOnly "\<lparr>init = 0, current = 0\<rparr>" initialWorld]
  note t1 = t [THEN conjunct1, THEN mp, OF a, unfolded seg Quote_bogus LevelsString_eq]
  note t2 = t [THEN conjunct2, THEN mp, OF b, unfolded seg Quote_bogus]
  have r1: "ServeHTTP_ParseLevel asciiOnly \<lparr>init = 0, current = 0\<rparr> NewRecorder
       (NewRequest ''PUT'' ''/log/bogus'') initialWorld =
     (\<lparr>wroteHeader = True, Code = 400,
       Body = ''unknown log level '' @ [CHR 0x22] @ ''bogus'' @ [CHR 0x22] @
              '', specify one of DEBUG, INFO, WARN, ERROR''\<rparr>, initialWorld)"
    by (simp add: t1)
  have r2: "ServeHTTP asciiOnly \<lparr>init = 0, current = 0\<rparr> NewRecorder
       (NewRequest ''PUT'' ''/log/bogus'') initialWorld =
     (\<lparr>wroteHeader = True, Code = 400,
       Body = ''unknown log level '' @ [CHR 0x22] @ ''bogus'' @ [CHR 0x22]\<rparr>, initialWorld)"
    by (simp add: t2)
  show ?thesis
    by (intro conjI m a r1 b r2)
qed

text \<open>
  C3. A DELETE request sets the shared level cell to the initial level the handler
  captured at construction and is answered 202 with an empty body, whatever requests
  were served before it; a second DELETE leaves every level cell as the first one left
  it.
\<close>

theorem delete_resets_to_init:
  assumes "Method d = ''DELETE''"
  shows "fst (ServeHTTP U h NewRecorder d (serveAll (ServeHTTP U h) rs w)) =
           \<lparr>wroteHeader = True, Code = 202, Body = []\<rparr> \<and>
         LevelVar_Level (current h) (snd (ServeHTTP U h NewRecorder d (serveAll (ServeHTTP U h) rs w))) =
           init h \<and>
         levelVars (snd (ServeHTTP U h NewRecorder d
                      (snd (ServeHTTP U h NewRecorder d (serveAll (ServeHTTP U h) rs w))))) =
           levelVars (snd (ServeHTTP U h NewRecorder d (serveAll (ServeHTTP U h) rs w))) \<and>
         fst (ServeHTTP_ParseLevel U h NewRecorder d (serveAll (ServeHTTP_ParseLevel U h) rs w)) =
           \<lparr>wroteHeader = True, Code = 202, Body = []\<rparr> \<and>
         LevelVar_Level (current h)
            (snd (ServeHTTP_ParseLevel U h NewRecorder d (serveAll (ServeHTTP_ParseLevel U h) rs w))) =
           init h \<and>
         levelVars (snd (ServeHTTP_ParseLevel U h NewRecorder d
                      (snd (ServeHTTP_ParseLevel U h NewRecorder d
                         (serveAll (ServeHTTP_ParseLevel U h) rs w))))) =
           levelVars (snd (ServeHTTP_ParseLevel U h NewRecorder d
                         (serveAll (ServeHTTP_ParseLevel U h) rs w)))"
  using assms
  by (simp add: ServeHTTP_delete ServeHTTP_ParseLevel_delete LevelVar_Level_slog_LogAttrs
      LevelVar_Level_Set levelVars_slog_LogAttrs levelVars_Set)

theorem delete_resets_to_init_witness:
  "Method (NewRequest ''DELETE'' ''/log'') = ''DELETE'' \<and>
   LevelVar_Level 0
     (serveAll (ServeHTTP asciiOnly \<lparr>init = LevelWarn, current = 0\<rparr>)
        [NewRequest ''PUT'' ''/log/debug'', NewRequest ''PUT'' ''/log/error''] initialWorld) = LevelError \<and>
   fst (ServeHTTP asciiOnly \<lparr>init = LevelWarn, current = 0\<rparr> NewRecorder (NewRequest ''DELETE'' ''/log'')
     (serveAll (ServeHTTP asciiOnly \<lparr>init = LevelWarn, current = 0\<rparr>)
        [NewRequest ''PUT'' ''/log/debug'', NewRequest ''PUT'' ''/log/error''] initialWorld)) =
     \<lparr>wroteHeader = True, Code = 202, Body = []\<rparr> \<and>
   LevelVar_Level 0
     (snd (ServeHTTP asciiOnly \<lparr>init = LevelWarn, current = 0\<rparr> NewRecorder (NewRequest ''DELETE'' ''/log'')
       (serveAll (ServeHTTP asciiOnly \<lparr>init = LevelWarn, current = 0\<rparr>)
          [NewRequest ''PUT'' ''/log/debug'', NewRequest ''PUT'' ''/log/error''] initialWorld))) = LevelWarn \<and>
   LevelVar_Level 0
     (snd (ServeHTTP_ParseLevel asciiOnly \<lparr>init = LevelWarn, current = 0\<rparr> NewRecorder (NewRequest ''DELETE'' ''/log'')
       (serveAll (ServeHTTP_ParseLevel asciiOnly \<lparr>init = LevelWarn, current = 0\<rparr>)
          [NewRequest ''PUT'' ''/log/debug'', NewRequest ''PUT'' ''/log/error''] initialWorld))) = LevelWarn"
proof -
  have m: "Method (NewRequest ''DELETE'' ''/log'') = ''DELETE''"
    by (simp add: NewRequest_def)
  have before: "LevelVar_Level 0
     (serveAll (ServeHTTP asciiOnly \<lparr>init = LevelWarn, current = 0\<rparr>)
        [NewRequest ''PUT'' ''/log/debug'', NewRequest ''PUT'' ''/log/error''] initialWorld) = LevelError"
    by (simp add: NewRequest_def ServeHTTP_put lastSegment_examples UnmarshalText_names
        LevelVar_Level_slog_LogAttrs LevelVar_Level_Set)
  note t = delete_resets_to_init [OF m, of asciiOnly "\<lparr>init = LevelWarn, current = 0\<rparr>"
      "[NewRequest ''PUT'' ''/log/debug'', NewRequest ''PUT'' ''/log/error'']" initialWorld,
      unfolded logHandler.select_convs]
  show ?thesis
    by (intro conjI m before t [THEN conjunct1] t [THEN conjunct2, THEN conjunct1]
        t [THEN conjunct2, THEN conjunct2, THEN conjunct2, THEN conjunct2, THEN conjunct1])
qed

text \<open>
  C5. Splitting a path at its slashes yields at least one segment, so the handler never
  answers with the usage hint. A PUT or POST request whose path ends in a slash has the
  empty string as its last segment, which does not parse: it is answered 400 with the
  message for an unknown level, and the process state is returned as it was.
\<close>

theorem empty_segment_is_parse_failure:
  "Split p CHR ''/'' \<noteq> [] \<and> 1 \<le> length (Split p CHR ''/'') \<and>
   Body (fst (ServeHTTP_ParseLevel U h NewRecorder r w)) \<noteq> usageHint \<and>
   Body (fst (ServeHTTP U h NewRecorder r w)) \<noteq> usageHint \<and>
   ((Method r = ''PUT'' \<or> Method r = ''POST'') \<and> Path r = q @ ''/'' \<longrightarrow>
      ServeHTTP_ParseLevel U h NewRecorder r w =
        (\<lparr>wroteHeader = True, Code = 400,
          Body = ''unknown log level '' @ [CHR 0x22, CHR 0x22] @ '', specify one of '' @ LevelsString\<rparr>, w) \<and>
      ServeHTTP U h NewRecorder r w =
        (\<lparr>wroteHeader = True, Code = 400,
          Body = ''unknown log level '' @ [CHR 0x22, CHR 0x22]\<rparr>, w))"
proof (intro conjI impI)
  show "Split p CHR ''/'' \<noteq> []" by (rule Split_nonempty)
  then show "1 \<le> length (Split p CHR ''/'')" by (cases "Split p CHR ''/''") simp_all
  show "Body (fst (ServeHTTP_ParseLevel U h NewRecorder r w)) \<noteq> usageHint"
    by (rule ServeHTTP_ParseLevel_Body_not_usageHint)
  show "Body (fst (ServeHTTP U h NewRecorder r w)) \<noteq> usageHint"
    by (rule ServeHTTP_Body_not_usageHint)
next
  assume a: "(Method r = ''PUT'' \<or> Method r = ''POST'') \<and> Path r = q @ ''/''"
  then have seg: "lastSegment (Path r) = []"
    by (simp only: lastSegment_trailing_slash)
  show "ServeHTTP_ParseLevel U h NewRecorder r w =
        (\<lparr>wroteHeader = True, Code = 400,
          Body = ''unknown log level '' @ [CHR 0x22, CHR 0x22] @ '', specify one of '' @ LevelsString\<rparr>, w)"
    using a seg by (simp add: ServeHTTP_ParseLevel_put lastSegment_trailing_slash ParseLevel_empty Quote_empty)
  show "ServeHTTP U h NewRecorder r w =
        (\<lparr>wroteHeader = True, Code = 400,
          Body = ''unknown log level '' @ [CHR 0x22, CHR 0x22]\<rparr>, w)"
    using a seg by (simp add: ServeHTTP_put lastSegment_trailing_slash UnmarshalText_empty Quote_empty)
qed

theorem empty_segment_is_parse_failure_witness:
  "Split ''/log/'' CHR ''/'' = [[], ''log'', []] \<and>
   Method (NewRequest ''PUT'' ''/log/'') = ''PUT'' \<and>
   Path (NewRequest ''PUT'' ''/log/'') = ''/log'' @ ''/'' \<and>
   ServeHTTP_ParseLevel asciiOnly \<lparr>init = 0, current = 0\<rparr> NewRecorder (NewRequest ''PUT'' ''/log/'') initialWorld =
     (\<lparr>wroteHeader = True, Code = 400,
       Body = ''unknown log level '' @ [CHR 0x22, CHR 0x22] @ '', specify one of DEBUG, INFO, WARN, ERROR''\<rparr>,
      initialWorld) \<and>
   ServeHTTP asciiOnly \<lparr>init = 0, current = 0\<rparr> NewRecorder (NewRequest ''PUT'' ''/log/'') initialWorld =
     (\<lparr>wroteHeader = True, Code = 400, Body = ''unknown log level '' @ [CHR 0x22, CHR 0x22]\<rparr>, initialWorld)"
proof -
  have s: "Split ''/log/'' CHR ''/'' = [[], ''log'', []]"
    by (simp add: Split_def)
  have m: "Method (NewRequest ''PUT'' ''/log/'') = ''PUT''"
    by (simp add: NewRequest_def)
  have p: "Path (NewRequest ''PUT'' ''/log/'') = ''/log'' @ ''/''"
    by (simp add: NewRequest_def)
  have hyp: "(Method (NewRequest ''PUT'' ''/log/'') = ''PUT'' \<or> Method (NewRequest ''PUT'' ''/log/'') = ''POST'') \<and>
      Path (NewRequest ''PUT'' ''/log/'') = ''/log'' @ ''/''"
    using m p by simp
  note t = empty_segment_is_parse_failure [of "''/log/''" asciiOnly "\<lparr>init = 0, current = 0\<rparr>"
      "NewRequest ''PUT'' ''/log/''" initialWorld "''/log''"]
  note u = t [THEN conjunct2, THEN conjunct2, THEN conjunct2, THEN conjunct2, THEN mp, OF hyp,
      unfolded LevelsString_eq]
  have r1: "ServeHTTP_ParseLevel asciiOnly \<lparr>init = 0, current = 0\<rparr> NewRecorder (NewRequest ''PUT'' ''/log/'') initialWorld =
     (\<lparr>wroteHeader = True, Code = 400,
       Body = ''unknown log level '' @ [CHR 0x22, CHR 0x22] @ '', specify one of DEBUG, INFO, WARN, ERROR''\<rparr>,
      initialWorld)"
    using u [THEN conjunct1] by simp
  show ?thesis
    by (intro conjI s m p r1 u [THEN conjunct2])
qed

text \<open>
  C6. The response (status code and body) and the resulting value of the shared level
  cell are determined by the method and the path of the request and the value of the
  cell: two requests that agree on method and path, served in two process states that
  agree on the cell, get the same response and leave the same value in the cell. A
  request with a method other than GET, PUT, POST and DELETE is answered 405 with an
  empty body, and the process state is returned as it was.
\<close>

theorem handler_depends_on_method_path_cell:
  assumes "Method r1 = Method r2" and "Path r1 = Path r2"
    and "LevelVar_Level (current h) w1 = LevelVar_Level (current h) w2"
  shows "fst (ServeHTTP U h NewRecorder r1 w1) = fst (ServeHTTP U h NewRecorder r2 w2) \<and>
         LevelVar_Level (current h) (snd (ServeHTTP U h NewRecorder r1 w1)) =
         LevelVar_Level (current h) (snd (ServeHTTP U h NewRecorder r2 w2)) \<and>
         fst (ServeHTTP_ParseLevel U h NewRecorder r1 w1) = fst (ServeHTTP_ParseLevel U h NewRecorder r2 w2) \<and>
         LevelVar_Level (current h) (snd (ServeHTTP_ParseLevel U h NewRecorder r1 w1)) =
         LevelVar_Level (current h) (snd (ServeHTTP_ParseLevel U h NewRecorder r2 w2)) \<and>
         (Method r1 \<notin> {''GET'', ''PUT'', ''POST'', ''DELETE''} \<longrightarrow>
            ServeHTTP U h NewRecorder r1 w1 = (\<lparr>wroteHeader = True, Code = 405, Body = []\<rparr>, w1) \<and>
            ServeHTTP_ParseLevel U h NewRecorder r1 w1 = (\<lparr>wroteHeader = True, Code = 405, Body = []\<rparr>, w1))"
  using ServeHTTP_cell_determined [OF assms] ServeHTTP_ParseLevel_cell_determined [OF assms]
  by (simp add: ServeHTTP_other ServeHTTP_ParseLevel_other)

theorem handler_depends_on_method_path_cell_witness:
  "Method (NewRequest ''PUT'' ''/log/warn'') =
     Method \<lparr>Method = ''PUT'', Path = ''/log/warn'', RawQuery = ''level=debug'',
             Header = [(''X-Level'', ''error'')], RequestBody = ''debug''\<rparr> \<and>
   Path (NewRequest ''PUT'' ''/log/warn'') =
     Path \<lparr>Method = ''PUT'', Path = ''/log/warn'', RawQuery = ''level=debug'',
           Header = [(''X-Level'', ''error'')], RequestBody = ''debug''\<rparr> \<and>
   LevelVar_Level 0 initialWorld = LevelVar_Level 0 (LevelVar_Set 7 LevelError initialWorld) \<and>
   fst (ServeHTTP asciiOnly \<lparr>init = 0, current = 0\<rparr> NewRecorder (NewRequest ''PUT'' ''/log/warn'') initialWorld) =
   fst (ServeHTTP asciiOnly \<lparr>init = 0, current = 0\<rparr> NewRecorder
          \<lparr>Method = ''PUT'', Path = ''/log/warn'', RawQuery = ''level=debug'',
            Header = [(''X-Level'', ''error'')], RequestBody = ''debug''\<rparr>
          (LevelVar_Set 7 LevelError initialWorld)) \<and>
   LevelVar_Level 0
     (snd (ServeHTTP asciiOnly \<lparr>init = 0, current = 0\<rparr> NewRecorder (NewRequest ''PUT'' ''/log/warn'') initialWorld)) =
   LevelVar_Level 0
     (snd (ServeHTTP asciiOnly \<lparr>init = 0, current = 0\<rparr> NewRecorder
          \<lparr>Method = ''PUT'', Path = ''/log/warn'', RawQuery = ''level=debug'',
            Header = [(''X-Level'', ''error'')], RequestBody = ''debug''\<rparr>
          (LevelVar_Set 7 LevelError initialWorld))) \<and>
   Method (NewRequest ''PATCH'' ''/log'') \<notin> {''GET'', ''PUT'', ''POST'', ''DELETE''} \<and>
   ServeHTTP asciiOnly \<lparr>init = 0, current = 0\<rparr> NewRecorder (NewRequest ''PATCH'' ''/log'') initialWorld =
     (\<lparr>wroteHeader = True, Code = 405, Body = []\<rparr>, initialWorld) \<and>
   ServeHTTP_ParseLevel asciiOnly \<lparr>init = 0, current = 0\<rparr> NewRecorder (NewRequest ''PATCH'' ''/log'') initialWorld =
     (\<lparr>wroteHeader = True, Code = 405, Body = []\<rparr>, initialWorld)"
proof -
  let ?r2 = "\<lparr>Method = ''PUT'', Path = ''/log/warn'', RawQuery = ''level=debug'',
             Header = [(''X-Level'', ''error'')], RequestBody = ''debug''\<rparr>"
  let ?h = "\<lparr>init = 0, current = 0\<rparr>"
  have m: "Method (NewRequest ''PUT'' ''/log/warn'') = Method ?r2"
    by (simp add: NewRequest_def)
  have p: "Path (NewRequest ''PUT'' ''/log/warn'') = Path ?r2"
    by (simp add: NewRequest_def)
  have c: "LevelVar_Level (current ?h) initialWorld =
      LevelVar_Level (current ?h) (LevelVar_Set 7 LevelError initialWorld)"
    by (simp add: LevelVar_Level_def LevelVar_Set_def)
  note t = handler_depends_on_method_path_cell [OF m p c, of asciiOnly, unfolded logHandler.select_convs]
  have n: "Method (NewRequest ''PATCH'' ''/log'') \<notin> {''GET'', ''PUT'', ''POST'', ''DELETE''}"
    by (simp add: NewRequest_def)
  note u = handler_depends_on_method_path_cell [where ?r1.0 = "NewRequest ''PATCH'' ''/log''"
      and ?r2.0 = "NewRequest ''PATCH'' ''/log''" and h = ?h and ?w1.0 = initialWorld
      and ?w2.0 = initialWorld and U = asciiOnly, OF refl refl refl]
  note v = u [THEN conjunct2, THEN conjunct2, THEN conjunct2, THEN conjunct2, THEN mp, OF n]
  show ?thesis
    by (intro conjI m p c [unfolded logHandler.select_convs] t [THEN conjunct1]
        t [THEN conjunct2, THEN conjunct1] n v [THEN conjunct1] v [THEN conjunct2])
qed

section \<open>Properties of the logger factory\<close>

text \<open>
  C8. When \<open>Create\<close> returns, the process state differs from the one before the call in
  the new level cell only: the default logger, the records written and every other
  level cell are as they were, and the handler points to the new cell. \<open>SetDefaults\<close> is
  \<open>Create\<close> followed by the installation of the logger it returned as the default
  logger, and returns the handler alone.
\<close>

theorem Create_allocates_only:
  "(Create opts jsonOutput attrs w = Inr (lg, h, w') \<longrightarrow>
      defaultLogger w' = defaultLogger w \<and> stderr w' = stderr w \<and>
      current h = nextVar w \<and> nextVar w' = Suc (nextVar w) \<and>
      (\<forall>v. v \<noteq> nextVar w \<longrightarrow> levelVars w' v = levelVars w v)) \<and>
   SetDefaults opts jsonOutput attrs w =
     (case Create opts jsonOutput attrs w of
        Inl p \<Rightarrow> Inl p
      | Inr (lg, h, w') \<Rightarrow> Inr (h, w'\<lparr>defaultLogger := lg\<rparr>))"
proof (intro conjI impI)
  assume a: "Create opts jsonOutput attrs w = Inr (lg, h, w')"
  then obtain lv where lv: "Level opts = Some lv"
    using Create_Inr_Some by blast
  show "defaultLogger w' = defaultLogger w" using a by (auto simp: Create_Some [OF lv])
  show "stderr w' = stderr w" using a by (auto simp: Create_Some [OF lv])
  show "current h = nextVar w" using a by (auto simp: Create_Some [OF lv])
  show "nextVar w' = Suc (nextVar w)" using a by (auto simp: Create_Some [OF lv])
  show "\<forall>v. v \<noteq> nextVar w \<longrightarrow> levelVars w' v = levelVars w v"
    using a by (auto simp: Create_Some [OF lv])
next
  show "SetDefaults opts jsonOutput attrs w =
     (case Create opts jsonOutput attrs w of
        Inl p \<Rightarrow> Inl p
      | Inr (lg, h, w') \<Rightarrow> Inr (h, w'\<lparr>defaultLogger := lg\<rparr>))"
    by (simp add: SetDefaults_def slog_SetDefault_def split: sum.split)
qed

theorem Create_allocates_only_witness:
  "Create \<lparr>AddSource = False, Level = Some (LevelValue LevelInfo), ReplaceAttr = None\<rparr> False [] initialWorld =
     Inr (\<lparr>format = Text,
            options = \<lparr>AddSource = False, Level = Some (LevelVarPtr 0), ReplaceAttr = None\<rparr>,
            withAttrs = []\<rparr>,
          \<lparr>init = LevelInfo, current = 0\<rparr>,
          initialWorld\<lparr>levelVars := (levelVars initialWorld)(0 := LevelInfo), nextVar := Suc 0\<rparr>) \<and>
   defaultLogger (initialWorld\<lparr>levelVars := (levelVars initialWorld)(0 := LevelInfo), nextVar := Suc 0\<rparr>) =
     defaultLogger initialWorld \<and>
   stderr (initialWorld\<lparr>levelVars := (levelVars initialWorld)(0 := LevelInfo), nextVar := Suc 0\<rparr>) =
     stderr initialWorld \<and>
   SetDefaults \<lparr>AddSource = False, Level = Some (LevelValue LevelInfo), ReplaceAttr = None\<rparr> False []
       initialWorld =
     Inr (\<lparr>init = LevelInfo, current = 0\<rparr>,
          initialWorld\<lparr>levelVars := (levelVars initialWorld)(0 := LevelInfo), nextVar := Suc 0,
            defaultLogger := \<lparr>format = Text,
              options = \<lparr>AddSource = False, Level = Some (LevelVarPtr 0), ReplaceAttr = None\<rparr>,
              withAttrs = []\<rparr>\<rparr>)"
proof -
  note t = Create_allocates_only [of "\<lparr>AddSource = False, Level = Some (LevelValue LevelInfo), ReplaceAttr = None\<rparr>"
      False "[]" initialWorld]
  note a = t [THEN conjunct1, THEN mp, OF Create_info]
  have b: "SetDefaults \<lparr>AddSource = False, Level = Some (LevelValue LevelInfo), ReplaceAttr = None\<rparr> False []
       initialWorld =
     Inr (\<lparr>init = LevelInfo, current = 0\<rparr>,
          initialWorld\<lparr>levelVars := (levelVars initialWorld)(0 := LevelInfo), nextVar := Suc 0,
            defaultLogger := \<lparr>format = Text,
              options = \<lparr>AddSource = False, Level = Some (LevelVarPtr 0), ReplaceAttr = None\<rparr>,
              withAttrs = []\<rparr>\<rparr>)"
    using t [THEN conjunct2] by (simp add: Create_info)
  show ?thesis
    by (intro conjI Create_info a [THEN conjunct1] a [THEN conjunct2, THEN conjunct1] b)
qed

text \<open>
  C9, as the code has it. \<open>Fatal\<close> logs at \<open>ERROR+4\<close>, a level above every level of the
  catalogue. The record is written when the threshold of the logger is at most
  \<open>ERROR+4\<close>, which every catalogue level is; above that threshold nothing is written.
  In both cases \<open>Fatal\<close> ends the process with exit status 1 and does not return. For a
  logger made by \<open>Create\<close> the threshold is the value of the shared level cell.
\<close>

theorem Fatal_logs_above_error_and_exits:
  "(\<forall>L \<in> set levels. L < LevelError + 4) \<and>
   (minLevel lg w \<le> LevelError + 4 \<longrightarrow>
      Fatal lg msg args w =
        Exit 1 (w\<lparr>stderr := stderr w @
                  [\<lparr>recLevel = LevelError + 4, recMessage = msg, recAttrs = withAttrs lg @ args,
                    recFormat = format lg\<rparr>]\<rparr>)) \<and>
   (LevelError + 4 < minLevel lg w \<longrightarrow> Fatal lg msg args w = Exit 1 w) \<and>
   (minLevel lg w \<in> set levels \<longrightarrow> minLevel lg w \<le> LevelError + 4) \<and>
   (Level (options lg) = Some (LevelVarPtr v) \<longrightarrow> minLevel lg w = LevelVar_Level v w) \<and>
   (\<forall>w'. Fatal lg msg args w \<noteq> Return () w')"
proof (intro conjI ballI impI allI)
  fix L assume "L \<in> set levels"
  then show "L < LevelError + 4" by (rule levels_below_fatal)
next
  assume "minLevel lg w \<le> LevelError + 4"
  then show "Fatal lg msg args w =
        Exit 1 (w\<lparr>stderr := stderr w @
                  [\<lparr>recLevel = LevelError + 4, recMessage = msg, recAttrs = withAttrs lg @ args,
                    recFormat = format lg\<rparr>]\<rparr>)"
    by (simp add: Fatal_def Logger_Log_def enabled_def)
next
  assume "LevelError + 4 < minLevel lg w"
  then show "Fatal lg msg args w = Exit 1 w"
    by (simp add: Fatal_def Logger_Log_def enabled_def)
next
  assume "minLevel lg w \<in> set levels"
  then show "minLevel lg w \<le> LevelError + 4"
    using levels_below_fatal [of "minLevel lg w"] by simp
next
  assume "Level (options lg) = Some (LevelVarPtr v)"
  then show "minLevel lg w = LevelVar_Level v w"
    by (simp add: minLevel_def)
next
  fix w' show "Fatal lg msg args w \<noteq> Return () w'"
    by (simp add: Fatal_def)
qed

theorem Fatal_logs_above_error_and_exits_witness:
  "LevelError \<in> set levels \<and> LevelError < LevelError + 4 \<and>
   minLevel \<lparr>format = Text,
          options = \<lparr>AddSource = False, Level = Some (LevelVarPtr 0), ReplaceAttr = None\<rparr>,
          withAttrs = []\<rparr>
       (initialWorld\<lparr>levelVars := (levelVars initialWorld)(0 := LevelInfo), nextVar := Suc 0\<rparr>)
     \<le> LevelError + 4 \<and>
   Fatal \<lparr>format = Text,
          options = \<lparr>AddSource = False, Level = Some (LevelVarPtr 0), ReplaceAttr = None\<rparr>,
          withAttrs = []\<rparr> ''boom'' []
       (initialWorld\<lparr>levelVars := (levelVars initialWorld)(0 := LevelInfo), nextVar := Suc 0\<rparr>) =
     Exit 1 (initialWorld\<lparr>levelVars := (levelVars initialWorld)(0 := LevelInfo), nextVar := Suc 0,
               stderr := [\<lparr>recLevel = 12, recMessage = ''boom'', recAttrs = [], recFormat = Text\<rparr>]\<rparr>) \<and>
   LevelError + 4 <
     minLevel \<lparr>format = Text,
          options = \<lparr>AddSource = False, Level = Some (LevelVarPtr 0), ReplaceAttr = None\<rparr>,
          withAttrs = []\<rparr>
       (initialWorld\<lparr>levelVars := (levelVars initialWorld)(0 := 16), nextVar := Suc 0\<rparr>) \<and>
   Fatal \<lparr>format = Text,
          options = \<lparr>AddSource = False, Level = Some (LevelVarPtr 0), ReplaceAttr = None\<rparr>,
          withAttrs = []\<rparr> ''boom'' []
       (initialWorld\<lparr>levelVars := (levelVars initialWorld)(0 := 16), nextVar := Suc 0\<rparr>) =
     Exit 1 (initialWorld\<lparr>levelVars := (levelVars initialWorld)(0 := 16), nextVar := Suc 0\<rparr>)"
proof -
  let ?lg = "\<lparr>format = Text,
          options = \<lparr>AddSource = False, Level = Some (LevelVarPtr 0), ReplaceAttr = None\<rparr>,
          withAttrs = []\<rparr>"
  let ?wi = "initialWorld\<lparr>levelVars := (levelVars initialWorld)(0 := LevelInfo), nextVar := Suc 0\<rparr>"
  let ?w16 = "initialWorld\<lparr>levelVars := (levelVars initialWorld)(0 := 16), nextVar := Suc 0\<rparr>"
  have x: "LevelError \<in> set levels"
    by (simp add: levels_def)
  have lo: "minLevel ?lg ?wi \<le> LevelError + 4"
    by (simp add: minLevel_def LevelVar_Level_def LevelInfo_def LevelError_def)
  have hi: "LevelError + 4 < minLevel ?lg ?w16"
    by (simp add: minLevel_def LevelVar_Level_def LevelError_def)
  note t = Fatal_logs_above_error_and_exits [of ?lg ?wi "''boom''" "[]"]
  note u = Fatal_logs_above_error_and_exits [of ?lg ?w16 "''boom''" "[]"]
  have b: "LevelError < LevelError + 4"
    using t [THEN conjunct1] x by blast
  have f: "Fatal ?lg ''boom'' [] ?wi =
     Exit 1 (initialWorld\<lparr>levelVars := (levelVars initialWorld)(0 := LevelInfo), nextVar := Suc 0,
               stderr := [\<lparr>recLevel = 12, recMessage = ''boom'', recAttrs = [], recFormat = Text\<rparr>]\<rparr>)"
    using t [THEN conjunct2, THEN conjunct1, THEN mp, OF lo]
    by (simp add: initialWorld_def LevelError_def)
  show ?thesis
    by (intro conjI x b lo f hi u [THEN conjunct2, THEN conjunct2, THEN conjunct1, THEN mp, OF hi])
qed

text \<open>
  The claim C9 as written, that the record is written whatever the threshold in the
  shared level cell, fails: a logger constructed with the initial level 16 has a
  threshold above \<open>ERROR+4\<close>, and \<open>Fatal\<close> ends the process without writing a record.
  The handler of \<open>log.go\<close> stores the same level on \<open>PUT /log/error+8\<close>
  (\<open>put_offset_sets_cell\<close>).
\<close>

theorem Fatal_suppressed_counterexample:
  "Create \<lparr>AddSource = False, Level = Some (LevelValue 16), ReplaceAttr = None\<rparr> False [] initialWorld =
     Inr (\<lparr>format = Text,
            options = \<lparr>AddSource = False, Level = Some (LevelVarPtr 0), ReplaceAttr = None\<rparr>,
            withAttrs = []\<rparr>,
          \<lparr>init = 16, current = 0\<rparr>,
          initialWorld\<lparr>levelVars := (levelVars initialWorld)(0 := 16), nextVar := Suc 0\<rparr>) \<and>
   Fatal \<lparr>format = Text,
          options = \<lparr>AddSource = False, Level = Some (LevelVarPtr 0), ReplaceAttr = None\<rparr>,
          withAttrs = []\<rparr> ''boom'' []
       (initialWorld\<lparr>levelVars := (levelVars initialWorld)(0 := 16), nextVar := Suc 0\<rparr>) =
     Exit 1 (initialWorld\<lparr>levelVars := (levelVars initialWorld)(0 := 16), nextVar := Suc 0\<rparr>) \<and>
   stderr (initialWorld\<lparr>levelVars := (levelVars initialWorld)(0 := 16), nextVar := Suc 0\<rparr>) = []"
proof -
  let ?w = "initialWorld\<lparr>levelVars := (levelVars initialWorld)(0 := 16), nextVar := Suc 0\<rparr>"
  let ?lg = "\<lparr>format = Text,
          options = \<lparr>AddSource = False, Level = Some (LevelVarPtr 0), ReplaceAttr = None\<rparr>,
          withAttrs = []\<rparr>"
  have m: "minLevel ?lg ?w = 16"
    by (simp add: minLevel_def LevelVar_Level_def)
  have f: "Fatal ?lg ''boom'' [] ?w = Exit 1 ?w"
    by (simp add: Fatal_def Logger_Log_def enabled_def m LevelError_def)
  have e: "stderr ?w = []"
    by (simp add: initialWorld_def)
  show ?thesis
    by (intro conjI Create_16 f e)
qed



end
